theory Spec2Isabelle
  imports Main "HOL-Library.Word" "HOL-Library.Sublist"
begin

section \<open>Messages of the route guide service\<close>

text \<open>
  The protobuf messages used by \<^verbatim>\<open>route_guide_server.cc\<close>. Coordinates and the
  counters of a summary are 32-bit signed integers: they are words here, read with
  \<open>sint\<close> wherever the code compares them or widens them to \<^verbatim>\<open>long\<close>.
\<close>

type_synonym int32 = "32 word"
type_synonym int64 = "64 word"

record Point =
  latitude :: int32
  longitude :: int32

record Feature =
  name :: string
  location :: Point

record Rectangle =
  lo :: Point
  hi :: Point

record RouteNote =
  location :: Point
  message :: string

record RouteSummary =
  point_count :: int32
  feature_count :: int32
  distance :: int32
  elapsed_time :: int32

text \<open>
  The outcome of a handler. Every handler of the file returns \<^verbatim>\<open>Status::OK\<close>; the
  only other status the file mentions is the \<^verbatim>\<open>NOT_FOUND\<close> of the line commented out in
  \<^verbatim>\<open>GetFeature\<close>.
\<close>

datatype Status = OK | NOT_FOUND string

section \<open>Lookup of a feature name\<close>

text \<open>
  \<^verbatim>\<open>GetFeatureName\<close> (lines 91-102): the range-based loop over \<^verbatim>\<open>feature_list\<close>
  returns from inside the loop at the first entry with both coordinates equal, and the
  empty string after the loop.
\<close>

fun GetFeatureName :: "Point \<Rightarrow> Feature list \<Rightarrow> string" where
  "GetFeatureName point [] = ''''"
| "GetFeatureName point (f # feature_list) =
     (if latitude (Feature.location f) = latitude point \<and>
         longitude (Feature.location f) = longitude point
      then name f
      else GetFeatureName point feature_list)"

section \<open>GetFeature\<close>

text \<open>
  \<^verbatim>\<open>GetFeature\<close> (lines 110-118) writes into the response object it is handed:
  \<^verbatim>\<open>set_name\<close> replaces the name, \<^verbatim>\<open>mutable_location()->CopyFrom\<close> replaces the
  location. The result is the status and the response after both writes.
\<close>

definition GetFeature :: "Feature list \<Rightarrow> Point \<Rightarrow> Feature \<Rightarrow> Status \<times> Feature" where
  "GetFeature feature_list point feature =
     (let feature = feature\<lparr>name := GetFeatureName point feature_list\<rparr>;
          feature = feature\<lparr>Feature.location := point\<rparr>
      in (OK, feature))"

section \<open>ListFeatures\<close>

text \<open>
  Lines 123-128 of \<^verbatim>\<open>ListFeatures\<close>: the four bounds, each a \<^verbatim>\<open>long\<close> holding the
  smaller or the larger of two 32-bit signed coordinates. The result is
  \<open>(left, right, top, bottom)\<close>; \<open>top\<close> and \<open>bottom\<close> carry a prime below, since
  \<open>top\<close> is a constant of HOL. Every 32-bit value fits a \<^verbatim>\<open>long\<close>, so the bounds
  are integers.
\<close>

definition normalize :: "Rectangle \<Rightarrow> int \<times> int \<times> int \<times> int" where
  "normalize rectangle =
     (let lo' = lo rectangle;
          hi' = hi rectangle;
          left = min (sint (longitude lo')) (sint (longitude hi'));
          right = max (sint (longitude lo')) (sint (longitude hi'));
          top' = max (sint (latitude lo')) (sint (latitude hi'));
          bottom' = min (sint (latitude lo')) (sint (latitude hi'))
      in (left, right, top', bottom'))"

text \<open>
  Lines 129-136: the loop over the catalog. \<open>writer\<close> is what the call has written to
  its response stream so far; \<^verbatim>\<open>writer->Write(f)\<close> appends to it. The code ignores
  the value \<^verbatim>\<open>Write\<close> returns.
\<close>

fun ListFeatures_loop ::
  "int \<times> int \<times> int \<times> int \<Rightarrow> Feature list \<Rightarrow> Feature list \<Rightarrow> Feature list" where
  "ListFeatures_loop (left, right, top', bottom') [] writer = writer"
| "ListFeatures_loop (left, right, top', bottom') (f # feature_list) writer =
     ListFeatures_loop (left, right, top', bottom') feature_list
       (if sint (longitude (Feature.location f)) \<ge> left \<and>
           sint (longitude (Feature.location f)) \<le> right \<and>
           sint (latitude (Feature.location f)) \<ge> bottom' \<and>
           sint (latitude (Feature.location f)) \<le> top'
        then writer @ [f]
        else writer)"

definition ListFeatures ::
  "Feature list \<Rightarrow> Rectangle \<Rightarrow> Feature list \<Rightarrow> Status \<times> Feature list" where
  "ListFeatures feature_list rectangle writer =
     (OK, ListFeatures_loop (normalize rectangle) feature_list writer)"

text \<open>
  The rectangle whose \<open>lo\<close> is the (bottom, left) corner and whose \<open>hi\<close> is the
  (top, right) corner of the bounds: it serves to state that computing the bounds again
  changes nothing.
\<close>

definition normalized :: "Rectangle \<Rightarrow> Rectangle" where
  "normalized rectangle =
     (case normalize rectangle of
        (left, right, top', bottom') \<Rightarrow>
          \<lparr>lo = \<lparr>latitude = word_of_int bottom', longitude = word_of_int left\<rparr>,
           hi = \<lparr>latitude = word_of_int top', longitude = word_of_int right\<rparr>\<rparr>)"

section \<open>RecordRoute\<close>

text \<open>
  \<^verbatim>\<open>RecordRoute\<close> accumulates a \<^verbatim>\<open>float\<close>. Single-precision rounding and the
  library functions that \<^verbatim>\<open>GetDistance\<close> (lines 72-89) calls have no counterpart in
  HOL, so the handler is modelled over any type \<open>'f\<close> of float values with the literal
  \<^verbatim>\<open>0.0\<close>, the addition of \<^verbatim>\<open>+=\<close>, \<^verbatim>\<open>GetDistance\<close> and the conversion of a value
  other than \<^verbatim>\<open>0.0\<close> to \<^verbatim>\<open>long\<close>. These four are what the machine computes;
  nothing is assumed of them, and no property below speaks of a distance that passes
  through \<open>f_add\<close>, \<open>GetDistance\<close> or \<open>f_to_long\<close>.
\<close>

record 'f float_ops =
  f_zero :: 'f
  f_add :: "'f \<Rightarrow> 'f \<Rightarrow> 'f"
  f_to_long :: "'f \<Rightarrow> int64"
  GetDistance :: "Point \<Rightarrow> Point \<Rightarrow> 'f"

text \<open>
  \<^verbatim>\<open>static_cast<long>(distance)\<close> (line 162) truncates towards zero: the value
  \<^verbatim>\<open>0.0\<close> converts to 0. Every other value is left to \<open>f_to_long\<close>: its truncation
  where it is finite and fits a \<^verbatim>\<open>long\<close>, and what the machine yields for a NaN, an
  infinity or a value out of range, where the C++ conversion is undefined.
\<close>

definition static_cast_long :: "'f float_ops \<Rightarrow> 'f \<Rightarrow> int64" where
  "static_cast_long fp d = (if d = f_zero fp then 0 else f_to_long fp d)"

text \<open>
  Lines 149-158: the loop over the points read. The state is
  \<open>(point_count, feature_count, distance, previous)\<close>. The counters are \<^verbatim>\<open>int\<close>,
  32 bits wide: \<^verbatim>\<open>++\<close> is addition on 32-bit words. Past 2147483647 the C++
  addition overflows, which the language leaves undefined; the words wrap around, as the
  two's-complement machines the server runs on do.
\<close>

fun RecordRoute_loop ::
  "'f float_ops \<Rightarrow> Feature list \<Rightarrow> Point list \<Rightarrow> int32 \<times> int32 \<times> 'f \<times> Point \<Rightarrow>
   int32 \<times> int32 \<times> 'f \<times> Point" where
  "RecordRoute_loop fp feature_list [] (point_count', feature_count', distance', previous) =
     (point_count', feature_count', distance', previous)"
| "RecordRoute_loop fp feature_list (point # reader)
       (point_count', feature_count', distance', previous) =
     (let point_count' = point_count' + 1;
          feature_count' =
            (if GetFeatureName point feature_list \<noteq> '''' then feature_count' + 1
             else feature_count');
          distance' =
            (if point_count' \<noteq> 1 then f_add fp distance' (GetDistance fp previous point)
             else distance');
          previous = point
      in RecordRoute_loop fp feature_list reader
           (point_count', feature_count', distance', previous))"

text \<open>
  Lines 140-168. \<open>reader\<close> is the finite stream of points the call reads, \<open>secs\<close> the
  value of \<^verbatim>\<open>secs.count()\<close> (the clock is outside the model), \<open>summary\<close> the response
  object the setters write into. \<^verbatim>\<open>Point previous\<close> starts as the default message, both
  coordinates 0. \<^verbatim>\<open>set_distance\<close> and \<^verbatim>\<open>set_elapsed_time\<close> take a 32-bit value: the
  argument, a \<^verbatim>\<open>long\<close> of 64 bits on the POSIX targets the file is written for, is
  narrowed to its low 32 bits.
\<close>

definition RecordRoute ::
  "'f float_ops \<Rightarrow> Feature list \<Rightarrow> Point list \<Rightarrow> int64 \<Rightarrow> RouteSummary \<Rightarrow>
   Status \<times> RouteSummary" where
  "RecordRoute fp feature_list reader secs summary =
     (case RecordRoute_loop fp feature_list reader
             (0, 0, f_zero fp, \<lparr>latitude = 0, longitude = 0\<rparr>) of
        (point_count', feature_count', distance', previous) \<Rightarrow>
          (OK, summary\<lparr>point_count := point_count',
                        feature_count := feature_count',
                        distance := scast (static_cast_long fp distance'),
                        elapsed_time := scast secs\<rparr>))"

section \<open>RouteChat\<close>

text \<open>
  Lines 175-180: the scan of \<^verbatim>\<open>received_notes_\<close> for one inbound note. \<open>stream\<close> is
  what the call has written back to its caller so far.
\<close>

fun RouteChat_scan :: "RouteNote \<Rightarrow> RouteNote list \<Rightarrow> RouteNote list \<Rightarrow> RouteNote list" where
  "RouteChat_scan note [] stream = stream"
| "RouteChat_scan note (n # received_notes) stream =
     RouteChat_scan note received_notes
       (if latitude (RouteNote.location n) = latitude (RouteNote.location note) \<and>
           longitude (RouteNote.location n) = longitude (RouteNote.location note)
        then stream @ [n]
        else stream)"

text \<open>
  Lines 174-181: the body of the \<^verbatim>\<open>while\<close> loop, run with the mutex held, on the pair
  of the shared \<^verbatim>\<open>received_notes_\<close> and the call's own output stream.
\<close>

definition RouteChat_body ::
  "RouteNote \<Rightarrow> RouteNote list \<times> RouteNote list \<Rightarrow> RouteNote list \<times> RouteNote list" where
  "RouteChat_body note = (\<lambda>(received_notes, stream).
     (received_notes @ [note], RouteChat_scan note received_notes stream))"

text \<open>
  Lines 170-185, for a call that runs with no other chat call in between: \<open>inbound\<close> is
  the finite stream of notes the call reads.
\<close>

fun RouteChat ::
  "RouteNote list \<Rightarrow> RouteNote list \<times> RouteNote list \<Rightarrow>
   Status \<times> RouteNote list \<times> RouteNote list" where
  "RouteChat [] (received_notes, stream) = (OK, received_notes, stream)"
| "RouteChat (note # inbound) (received_notes, stream) =
     RouteChat inbound (RouteChat_body note (received_notes, stream))"

text \<open>
  Several chat calls at once. The mutex makes each loop body atomic, so a run of the
  server is a sequence of events, each the next step of one call: the call reads a note
  and runs the loop body, or its read reports the end of the stream and the call returns.
  The state is the shared \<^verbatim>\<open>received_notes_\<close> and, for each call, what it has written
  to its own stream.
\<close>

type_synonym call_id = nat

datatype chat_event = ReadNote call_id RouteNote | EndOfStream call_id

record chat_state =
  received_notes :: "RouteNote list"
  written :: "call_id \<Rightarrow> RouteNote list"

fun chat_step :: "chat_state \<Rightarrow> chat_event \<Rightarrow> chat_state" where
  "chat_step st (ReadNote c note) =
     (case RouteChat_body note (received_notes st, written st c) of
        (received_notes', stream') \<Rightarrow>
          \<lparr>received_notes = received_notes', written = (written st)(c := stream')\<rparr>)"
| "chat_step st (EndOfStream c) = st"

fun chat_run :: "chat_state \<Rightarrow> chat_event list \<Rightarrow> chat_state" where
  "chat_run st [] = st"
| "chat_run st (e # events) = chat_run (chat_step st e) events"

section \<open>Properties of the name lookup\<close>

lemma Point_eq_iff:
  "(p = q) = (latitude p = latitude q \<and> longitude p = longitude q)"
  for p q :: Point
  by auto

lemma GetFeatureName_filter:
  "GetFeatureName point feature_list =
     (case filter (\<lambda>f. Feature.location f = point) feature_list of
        [] \<Rightarrow> ''''
      | f # _ \<Rightarrow> name f)"
  by (induction feature_list) (simp_all add: Point_eq_iff)

lemma GetFeatureName_no_match:
  "\<forall>f \<in> set feature_list. Feature.location f \<noteq> point \<Longrightarrow>
   GetFeatureName point feature_list = ''''"
  by (induction feature_list) (auto simp: Point_eq_iff)

lemma GetFeatureName_earliest:
  "\<forall>g \<in> set pre. Feature.location g \<noteq> point \<Longrightarrow> Feature.location f = point \<Longrightarrow>
   GetFeatureName point (pre @ f # post) = name f"
  by (induction pre) (auto simp: Point_eq_iff)

text \<open>
  Claim C6. \<^verbatim>\<open>GetFeatureName\<close> scans the catalog in order and returns the name of the
  first entry whose location equals the point on both coordinates: the result is the
  name of the head of the matching entries taken in catalog order, and the empty string
  when there is none. In particular it is empty when no entry matches, and an entry that
  matches wins over every later one as soon as no entry before it matches.
\<close>

theorem GetFeatureName_first_match:
  "GetFeatureName point feature_list =
     (case filter (\<lambda>f. latitude (Feature.location f) = latitude point \<and>
                        longitude (Feature.location f) = longitude point) feature_list of
        [] \<Rightarrow> ''''
      | f # _ \<Rightarrow> name f)
   \<and> ((\<forall>f \<in> set feature_list. Feature.location f \<noteq> point) \<longrightarrow>
        GetFeatureName point feature_list = '''')
   \<and> (\<forall>pre f post.
        feature_list = pre @ f # post \<and>
        (\<forall>g \<in> set pre. Feature.location g \<noteq> point) \<and>
        Feature.location f = point \<longrightarrow>
        GetFeatureName point feature_list = name f)"
proof (intro conjI allI impI)
  show "GetFeatureName point feature_list =
     (case filter (\<lambda>f. latitude (Feature.location f) = latitude point \<and>
                        longitude (Feature.location f) = longitude point) feature_list of
        [] \<Rightarrow> ''''
      | f # _ \<Rightarrow> name f)"
    using GetFeatureName_filter [of point feature_list] by (simp add: Point_eq_iff)
next
  assume "\<forall>f \<in> set feature_list. Feature.location f \<noteq> point"
  then show "GetFeatureName point feature_list = ''''"
    by (rule GetFeatureName_no_match)
next
  fix pre f post
  assume "feature_list = pre @ f # post \<and>
        (\<forall>g \<in> set pre. Feature.location g \<noteq> point) \<and>
        Feature.location f = point"
  then show "GetFeatureName point feature_list = name f"
    by (simp add: GetFeatureName_earliest)
qed

theorem GetFeatureName_first_match_witness:
  "GetFeatureName \<lparr>latitude = 2, longitude = 3\<rparr>
     [\<lparr>name = ''A'', location = \<lparr>latitude = 2, longitude = 0\<rparr>\<rparr>,
      \<lparr>name = ''B'', location = \<lparr>latitude = 2, longitude = 3\<rparr>\<rparr>,
      \<lparr>name = ''C'', location = \<lparr>latitude = 2, longitude = 3\<rparr>\<rparr>] = ''B''
   \<and> GetFeatureName \<lparr>latitude = 0, longitude = 3\<rparr>
     [\<lparr>name = ''A'', location = \<lparr>latitude = 2, longitude = 0\<rparr>\<rparr>,
      \<lparr>name = ''B'', location = \<lparr>latitude = 2, longitude = 3\<rparr>\<rparr>,
      \<lparr>name = ''C'', location = \<lparr>latitude = 2, longitude = 3\<rparr>\<rparr>] = ''''"
  using
    GetFeatureName_first_match [of "\<lparr>latitude = 2, longitude = 3\<rparr>"
      "[\<lparr>name = ''A'', location = \<lparr>latitude = 2, longitude = 0\<rparr>\<rparr>,
        \<lparr>name = ''B'', location = \<lparr>latitude = 2, longitude = 3\<rparr>\<rparr>,
        \<lparr>name = ''C'', location = \<lparr>latitude = 2, longitude = 3\<rparr>\<rparr>]"]
    GetFeatureName_first_match [of "\<lparr>latitude = 0, longitude = 3\<rparr>"
      "[\<lparr>name = ''A'', location = \<lparr>latitude = 2, longitude = 0\<rparr>\<rparr>,
        \<lparr>name = ''B'', location = \<lparr>latitude = 2, longitude = 3\<rparr>\<rparr>,
        \<lparr>name = ''C'', location = \<lparr>latitude = 2, longitude = 3\<rparr>\<rparr>]"]
  by simp

section \<open>Properties of GetFeature\<close>

text \<open>
  Claim C3. \<^verbatim>\<open>GetFeature\<close> returns \<^verbatim>\<open>OK\<close> for every catalog, every point and every
  response object it is handed; the name of the response is what \<^verbatim>\<open>GetFeatureName\<close>
  finds for the point and its location is the point. When no entry of the catalog is at
  the point, the response is the feature with the empty name at the point.
\<close>

theorem GetFeature_always_OK:
  "fst (GetFeature feature_list point feature) = OK
   \<and> name (snd (GetFeature feature_list point feature)) = GetFeatureName point feature_list
   \<and> Feature.location (snd (GetFeature feature_list point feature)) = point
   \<and> ((\<forall>f \<in> set feature_list. Feature.location f \<noteq> point) \<longrightarrow>
        GetFeature feature_list point feature = (OK, \<lparr>name = '''', location = point\<rparr>))"
  by (simp add: GetFeature_def Let_def GetFeatureName_no_match)

theorem GetFeature_always_OK_witness:
  "Feature.location
     \<lparr>name = ''Patriots Path'',
      location = \<lparr>latitude = 407838351, longitude = - 746143763\<rparr>\<rparr>
     \<noteq> \<lparr>latitude = 407838351, longitude = 0\<rparr>
   \<and> GetFeature
       [\<lparr>name = ''Patriots Path'',
         location = \<lparr>latitude = 407838351, longitude = - 746143763\<rparr>\<rparr>]
       \<lparr>latitude = 407838351, longitude = 0\<rparr>
       \<lparr>name = ''stale'', location = \<lparr>latitude = 1, longitude = 1\<rparr>\<rparr>
     = (OK, \<lparr>name = '''', location = \<lparr>latitude = 407838351, longitude = 0\<rparr>\<rparr>)
   \<and> GetFeature
       [\<lparr>name = ''Patriots Path'',
         location = \<lparr>latitude = 407838351, longitude = - 746143763\<rparr>\<rparr>]
       \<lparr>latitude = 407838351, longitude = - 746143763\<rparr>
       \<lparr>name = ''stale'', location = \<lparr>latitude = 1, longitude = 1\<rparr>\<rparr>
     = (OK, \<lparr>name = ''Patriots Path'',
             location = \<lparr>latitude = 407838351, longitude = - 746143763\<rparr>\<rparr>)"
  using
    GetFeature_always_OK [of
      "[\<lparr>name = ''Patriots Path'',
         location = \<lparr>latitude = 407838351, longitude = - 746143763\<rparr>\<rparr>]"
      "\<lparr>latitude = 407838351, longitude = 0\<rparr>"
      "\<lparr>name = ''stale'', location = \<lparr>latitude = 1, longitude = 1\<rparr>\<rparr>"]
  by (simp add: GetFeature_def)

section \<open>Properties of ListFeatures\<close>

lemma ListFeatures_loop_filter:
  "ListFeatures_loop (l, r, t, b) feature_list writer =
     writer @ filter (\<lambda>f. l \<le> sint (longitude (Feature.location f)) \<and>
                          sint (longitude (Feature.location f)) \<le> r \<and>
                          b \<le> sint (latitude (Feature.location f)) \<and>
                          sint (latitude (Feature.location f)) \<le> t) feature_list"
  by (induction feature_list arbitrary: writer) simp_all

lemma normalize_swap:
  "normalize (rectangle\<lparr>lo := hi rectangle, hi := lo rectangle\<rparr>) = normalize rectangle"
  by (simp add: normalize_def Let_def min.commute max.commute)

lemma sint_min_roundtrip:
  "sint (word_of_int (min (sint a) (sint b)) :: int32) = min (sint a) (sint b)"
  for a b :: int32
  by (simp add: min_def)

lemma sint_max_roundtrip:
  "sint (word_of_int (max (sint a) (sint b)) :: int32) = max (sint a) (sint b)"
  for a b :: int32
  by (simp add: max_def)

lemma normalize_normalized:
  "normalize (normalized rectangle) = normalize rectangle"
  by (simp add: normalized_def normalize_def Let_def sint_min_roundtrip sint_max_roundtrip)

text \<open>
  Claim C4. \<^verbatim>\<open>ListFeatures\<close> writes the same sequence of features when the \<open>lo\<close> and
  \<open>hi\<close> corners of the rectangle are exchanged before the call. The bounds it computes
  are the same for the exchanged rectangle (symmetry), and computing them again from
  the rectangle spanned by the bounds gives the same bounds (idempotence), hence the
  same features.
\<close>

theorem ListFeatures_corner_order:
  "ListFeatures feature_list (rectangle\<lparr>lo := hi rectangle, hi := lo rectangle\<rparr>) writer =
     ListFeatures feature_list rectangle writer
   \<and> normalize (rectangle\<lparr>lo := hi rectangle, hi := lo rectangle\<rparr>) = normalize rectangle
   \<and> normalize (normalized rectangle) = normalize rectangle
   \<and> ListFeatures feature_list (normalized rectangle) writer =
       ListFeatures feature_list rectangle writer"
  by (simp add: ListFeatures_def normalize_swap normalize_normalized)

text \<open>
  Claim C5. \<^verbatim>\<open>ListFeatures\<close> returns \<^verbatim>\<open>OK\<close> and appends to its stream exactly the
  catalog entries whose longitude lies between the smaller and the larger longitude of
  the two corners and whose latitude lies between the smaller and the larger latitude
  of the two corners, bounds included, in catalog order, each qualifying entry once.
\<close>

theorem ListFeatures_bounding_box:
  "ListFeatures feature_list rectangle writer =
     (OK, writer @ filter
        (\<lambda>f. min (sint (longitude (lo rectangle))) (sint (longitude (hi rectangle)))
                \<le> sint (longitude (Feature.location f)) \<and>
             sint (longitude (Feature.location f))
                \<le> max (sint (longitude (lo rectangle))) (sint (longitude (hi rectangle))) \<and>
             min (sint (latitude (lo rectangle))) (sint (latitude (hi rectangle)))
                \<le> sint (latitude (Feature.location f)) \<and>
             sint (latitude (Feature.location f))
                \<le> max (sint (latitude (lo rectangle))) (sint (latitude (hi rectangle))))
        feature_list)"
  by (simp add: ListFeatures_def normalize_def Let_def ListFeatures_loop_filter)

section \<open>Properties of RouteChat\<close>

lemma RouteChat_scan_filter:
  "RouteChat_scan note log stream =
     stream @ filter (\<lambda>n. RouteNote.location n = RouteNote.location note) log"
  by (induction log arbitrary: stream) (simp_all add: Point_eq_iff)

lemma RouteChat_body_eq:
  "RouteChat_body note (log, stream) =
     (log @ [note],
      stream @ filter (\<lambda>n. RouteNote.location n = RouteNote.location note) log)"
  by (simp add: RouteChat_body_def RouteChat_scan_filter)

lemma chat_step_ReadNote:
  "chat_step st (ReadNote c note) =
     \<lparr>received_notes = received_notes st @ [note],
      written = (written st)
        (c := written st c @
           filter (\<lambda>n. RouteNote.location n = RouteNote.location note) (received_notes st))\<rparr>"
  by (simp add: RouteChat_body_eq)

lemma RouteChat_received:
  "fst (RouteChat inbound (log, stream)) = OK \<and>
   fst (snd (RouteChat inbound (log, stream))) = log @ inbound"
  by (induction inbound arbitrary: log stream) (simp_all add: RouteChat_body_eq)

lemma RouteChat_snoc:
  "RouteChat (inbound @ [note]) (log, stream) =
     (OK, RouteChat_body note (snd (RouteChat inbound (log, stream))))"
  by (induction inbound arbitrary: log stream) (simp_all add: RouteChat_body_eq)

lemma chat_run_received:
  "received_notes (chat_run st events) =
     received_notes st @
       concat (map (\<lambda>e. case e of ReadNote c note \<Rightarrow> [note] | EndOfStream c \<Rightarrow> []) events)"
proof (induction events arbitrary: st)
  case Nil
  then show ?case by simp
next
  case (Cons e events)
  then show ?case by (cases e) (simp_all add: RouteChat_body_eq)
qed

text \<open>
  Claim C1. For an inbound note, the loop body of \<^verbatim>\<open>RouteChat\<close> appends to the stream
  of the same call exactly the notes already stored whose latitude and longitude both
  equal the inbound note's, in the order they were stored, and stores the inbound note
  at the end. The scan reads the notes stored before the inbound note is: the notes at
  that point in the new store are the ones written back followed by the inbound note,
  which is therefore not among those written back in that pass. Every note of a call
  is processed by this loop body, on the store the previous notes left, and with
  several calls at once a step of call \<open>c\<close> changes the stream of \<open>c\<close> only.
\<close>

theorem RouteChat_replay:
  "RouteChat_body note (log, stream) =
     (log @ [note],
      stream @ filter (\<lambda>n. latitude (RouteNote.location n) = latitude (RouteNote.location note) \<and>
                           longitude (RouteNote.location n) = longitude (RouteNote.location note))
                 log)
   \<and> filter (\<lambda>n. RouteNote.location n = RouteNote.location note)
        (fst (RouteChat_body note (log, stream))) =
      filter (\<lambda>n. RouteNote.location n = RouteNote.location note) log @ [note]
   \<and> RouteChat (inbound @ [note]) (log, stream) =
      (OK, RouteChat_body note (snd (RouteChat inbound (log, stream))))
   \<and> chat_step st (ReadNote c note) =
      \<lparr>received_notes = received_notes st @ [note],
       written = (written st)
         (c := written st c @
            filter (\<lambda>n. RouteNote.location n = RouteNote.location note) (received_notes st))\<rparr>"
  using RouteChat_snoc [of inbound "note" log stream]
  by (simp add: RouteChat_body_eq Point_eq_iff del: chat_step.simps add: chat_step_ReadNote)

text \<open>
  The scenario of the specification: call \<open>a\<close> sends \<open>n1\<close> at a point, call \<open>b\<close> then
  sends \<open>n2\<close> at the same point and \<open>n3\<close> at another point. Call \<open>b\<close> is sent \<open>n1\<close> and
  nothing else, call \<open>a\<close> is sent nothing, and the store holds the three notes in the
  order they arrived.
\<close>

lemma chat_scenario:
  assumes "RouteNote.location n1 = q" "RouteNote.location n2 = q" "RouteNote.location n3 \<noteq> q"
    and "a \<noteq> b"
  shows "written (chat_run \<lparr>received_notes = [], written = (\<lambda>c. [])\<rparr>
            [ReadNote a n1, ReadNote b n2, ReadNote b n3, EndOfStream a, EndOfStream b]) b = [n1]"
    and "written (chat_run \<lparr>received_notes = [], written = (\<lambda>c. [])\<rparr>
            [ReadNote a n1, ReadNote b n2, ReadNote b n3, EndOfStream a, EndOfStream b]) a = []"
    and "received_notes (chat_run \<lparr>received_notes = [], written = (\<lambda>c. [])\<rparr>
            [ReadNote a n1, ReadNote b n2, ReadNote b n3, EndOfStream a, EndOfStream b]) =
          [n1, n2, n3]"
  using assms by (auto simp: RouteChat_body_eq)

text \<open>
  Claim C9. The stored notes only grow at the end. A step of any chat call leaves the
  stored sequence as it is (the read reports the end of the stream) or appends one note
  to it; so the stored sequence at any moment of a run is a prefix of the stored
  sequence at every later moment, whatever the calls and their interleaving, and a call
  running alone ends with a store that extends the one it started with.
\<close>

theorem received_notes_append_only:
  "(received_notes (chat_step st e) = received_notes st \<or>
      (\<exists>note. received_notes (chat_step st e) = received_notes st @ [note]))
   \<and> prefix (received_notes st) (received_notes (chat_run st events))
   \<and> prefix (received_notes (chat_run st events))
        (received_notes (chat_run st (events @ events')))
   \<and> prefix log (fst (snd (RouteChat inbound (log, stream))))"
proof (intro conjI)
  show "received_notes (chat_step st e) = received_notes st \<or>
      (\<exists>note. received_notes (chat_step st e) = received_notes st @ [note])"
    by (cases e) (simp_all add: RouteChat_body_eq)
  show "prefix (received_notes st) (received_notes (chat_run st events))"
    by (simp add: chat_run_received)
  show "prefix (received_notes (chat_run st events))
        (received_notes (chat_run st (events @ events')))"
    by (simp add: chat_run_received)
  show "prefix log (fst (snd (RouteChat inbound (log, stream))))"
    by (simp add: RouteChat_received)
qed

section \<open>Properties of RecordRoute\<close>


text \<open>
  The counters and \<open>previous\<close> after the loop, from any state: each point read adds
  one to \<open>point_count\<close>, each point with a non-empty name adds one to
  \<open>feature_count\<close>, and \<open>previous\<close> is the last point read.
\<close>

lemma RecordRoute_loop_counts:
  "RecordRoute_loop fp feature_list reader (pc, fc, d, prev) = (pc', fc', d', prev') \<Longrightarrow>
     pc' = pc + of_nat (length reader) \<and>
     fc' = fc + of_nat (length (filter (\<lambda>p. GetFeatureName p feature_list \<noteq> '''') reader)) \<and>
     prev' = last (prev # reader)"
proof (induction reader arbitrary: pc fc d prev)
  case Nil
  then show ?case by simp
next
  case (Cons p ps)
  show ?case
  proof (cases "GetFeatureName p feature_list = ''''")
    case True
    with Cons.prems obtain d1 where
      "RecordRoute_loop fp feature_list ps (pc + 1, fc, d1, p) = (pc', fc', d', prev')"
      by (simp add: Let_def)
    from Cons.IH [OF this] True show ?thesis by simp
  next
    case False
    with Cons.prems obtain d1 where
      "RecordRoute_loop fp feature_list ps (pc + 1, fc + 1, d1, p) = (pc', fc', d', prev')"
      by (simp add: Let_def)
    from Cons.IH [OF this] False show ?thesis by simp
  qed
qed

lemma RecordRoute_fields:
  "RecordRoute fp feature_list reader secs summary =
     (OK, summary\<lparr>
        point_count := of_nat (length reader),
        feature_count :=
          of_nat (length (filter (\<lambda>p. GetFeatureName p feature_list \<noteq> '''') reader)),
        distance := scast (static_cast_long fp
                      (fst (snd (snd (RecordRoute_loop fp feature_list reader
                         (0, 0, f_zero fp, \<lparr>latitude = 0, longitude = 0\<rparr>)))))),
        elapsed_time := scast secs\<rparr>)"
proof -
  obtain pc' fc' d' prev' where
    L: "RecordRoute_loop fp feature_list reader
          (0, 0, f_zero fp, \<lparr>latitude = 0, longitude = 0\<rparr>) = (pc', fc', d', prev')"
    by (cases "RecordRoute_loop fp feature_list reader
          (0, 0, f_zero fp, \<lparr>latitude = 0, longitude = 0\<rparr>)") auto
  from RecordRoute_loop_counts [OF L] L show ?thesis
    by (simp add: RecordRoute_def)
qed


lemma RecordRoute_feature_count:
  "feature_count (snd (RecordRoute fp feature_list reader secs summary)) =
     of_nat (length (filter (\<lambda>p. GetFeatureName p feature_list \<noteq> '''') reader))"
  by (simp add: RecordRoute_fields)





section \<open>A matching entry with an empty name\<close>

text \<open>
  Claim C10. Let the first catalog entry at the queried point have the empty name. A
  matching entry exists, yet \<^verbatim>\<open>GetFeatureName\<close> returns the empty string, which is
  also what it returns on the catalog with every entry at that point removed.
  \<^verbatim>\<open>GetFeature\<close> returns the feature with the empty name at the point, the same
  response as on the catalog without those entries, and \<^verbatim>\<open>RecordRoute\<close> counts the
  same \<^verbatim>\<open>feature_count\<close> with the point in the stream as without it.
\<close>

theorem empty_name_first_match:
  assumes "filter (\<lambda>g. Feature.location g = point) feature_list = f # rest"
    and "name f = ''''"
  shows
    "f \<in> set feature_list \<and> Feature.location f = point
     \<and> GetFeatureName point feature_list = ''''
     \<and> GetFeatureName point feature_list =
         GetFeatureName point (filter (\<lambda>g. Feature.location g \<noteq> point) feature_list)
     \<and> GetFeature feature_list point feature = (OK, \<lparr>name = '''', location = point\<rparr>)
     \<and> GetFeature feature_list point feature =
         GetFeature (filter (\<lambda>g. Feature.location g \<noteq> point) feature_list) point feature
     \<and> feature_count (snd (RecordRoute fp feature_list (before @ point # after) secs summary)) =
         feature_count (snd (RecordRoute fp feature_list (before @ after) secs summary))"
proof -
  have "f \<in> set (filter (\<lambda>g. Feature.location g = point) feature_list)"
    using assms(1) by simp
  then have mem: "f \<in> set feature_list \<and> Feature.location f = point"
    by simp
  have empty: "GetFeatureName point feature_list = ''''"
    using assms by (simp add: GetFeatureName_filter)
  have absent: "GetFeatureName point
      (filter (\<lambda>g. Feature.location g \<noteq> point) feature_list) = ''''"
    by (rule GetFeatureName_no_match) simp
  show ?thesis
    using mem empty absent
    by (simp add: GetFeature_def RecordRoute_feature_count)
qed

theorem empty_name_first_match_witness:
  "filter (\<lambda>g. Feature.location g = \<lparr>latitude = 2, longitude = 2\<rparr>)
     [\<lparr>name = ''A'', location = \<lparr>latitude = 1, longitude = 1\<rparr>\<rparr>,
      \<lparr>name = '''', location = \<lparr>latitude = 2, longitude = 2\<rparr>\<rparr>,
      \<lparr>name = ''B'', location = \<lparr>latitude = 2, longitude = 2\<rparr>\<rparr>]
     = \<lparr>name = '''', location = \<lparr>latitude = 2, longitude = 2\<rparr>\<rparr> #
       [\<lparr>name = ''B'', location = \<lparr>latitude = 2, longitude = 2\<rparr>\<rparr>]
   \<and> name \<lparr>name = '''', location = \<lparr>latitude = 2, longitude = 2\<rparr>\<rparr> = ''''
   \<and> GetFeature
       [\<lparr>name = ''A'', location = \<lparr>latitude = 1, longitude = 1\<rparr>\<rparr>,
        \<lparr>name = '''', location = \<lparr>latitude = 2, longitude = 2\<rparr>\<rparr>,
        \<lparr>name = ''B'', location = \<lparr>latitude = 2, longitude = 2\<rparr>\<rparr>]
       \<lparr>latitude = 2, longitude = 2\<rparr>
       \<lparr>name = ''stale'', location = \<lparr>latitude = 0, longitude = 0\<rparr>\<rparr>
     = (OK, \<lparr>name = '''', location = \<lparr>latitude = 2, longitude = 2\<rparr>\<rparr>)
   \<and> (\<forall>fp :: 'f float_ops. feature_count (snd (RecordRoute fp
       [\<lparr>name = ''A'', location = \<lparr>latitude = 1, longitude = 1\<rparr>\<rparr>,
        \<lparr>name = '''', location = \<lparr>latitude = 2, longitude = 2\<rparr>\<rparr>,
        \<lparr>name = ''B'', location = \<lparr>latitude = 2, longitude = 2\<rparr>\<rparr>]
       ([\<lparr>latitude = 1, longitude = 1\<rparr>] @ \<lparr>latitude = 2, longitude = 2\<rparr> # [])
       0 \<lparr>point_count = 0, feature_count = 0, distance = 0, elapsed_time = 0\<rparr>)) = 1)"
proof -
  have "filter (\<lambda>g. Feature.location g = \<lparr>latitude = 2, longitude = 2\<rparr>)
     [\<lparr>name = ''A'', location = \<lparr>latitude = 1, longitude = 1\<rparr>\<rparr>,
      \<lparr>name = '''', location = \<lparr>latitude = 2, longitude = 2\<rparr>\<rparr>,
      \<lparr>name = ''B'', location = \<lparr>latitude = 2, longitude = 2\<rparr>\<rparr>]
     = \<lparr>name = '''', location = \<lparr>latitude = 2, longitude = 2\<rparr>\<rparr> #
       [\<lparr>name = ''B'', location = \<lparr>latitude = 2, longitude = 2\<rparr>\<rparr>]
   \<and> name \<lparr>name = '''', location = \<lparr>latitude = 2, longitude = 2\<rparr>\<rparr> = ''''
   \<and> GetFeature
       [\<lparr>name = ''A'', location = \<lparr>latitude = 1, longitude = 1\<rparr>\<rparr>,
        \<lparr>name = '''', location = \<lparr>latitude = 2, longitude = 2\<rparr>\<rparr>,
        \<lparr>name = ''B'', location = \<lparr>latitude = 2, longitude = 2\<rparr>\<rparr>]
       \<lparr>latitude = 2, longitude = 2\<rparr>
       \<lparr>name = ''stale'', location = \<lparr>latitude = 0, longitude = 0\<rparr>\<rparr>
     = (OK, \<lparr>name = '''', location = \<lparr>latitude = 2, longitude = 2\<rparr>\<rparr>)
   \<and> feature_count (snd (RecordRoute fp
       [\<lparr>name = ''A'', location = \<lparr>latitude = 1, longitude = 1\<rparr>\<rparr>,
        \<lparr>name = '''', location = \<lparr>latitude = 2, longitude = 2\<rparr>\<rparr>,
        \<lparr>name = ''B'', location = \<lparr>latitude = 2, longitude = 2\<rparr>\<rparr>]
       ([\<lparr>latitude = 1, longitude = 1\<rparr>] @ \<lparr>latitude = 2, longitude = 2\<rparr> # [])
       0 \<lparr>point_count = 0, feature_count = 0, distance = 0, elapsed_time = 0\<rparr>)) = 1"
    for fp :: "'f float_ops"
    using
      empty_name_first_match [of
        "\<lparr>latitude = 2, longitude = 2\<rparr>"
        "[\<lparr>name = ''A'', location = \<lparr>latitude = 1, longitude = 1\<rparr>\<rparr>,
          \<lparr>name = '''', location = \<lparr>latitude = 2, longitude = 2\<rparr>\<rparr>,
          \<lparr>name = ''B'', location = \<lparr>latitude = 2, longitude = 2\<rparr>\<rparr>]"
        "\<lparr>name = '''', location = \<lparr>latitude = 2, longitude = 2\<rparr>\<rparr>"
        "[\<lparr>name = ''B'', location = \<lparr>latitude = 2, longitude = 2\<rparr>\<rparr>]"
        "\<lparr>name = ''stale'', location = \<lparr>latitude = 0, longitude = 0\<rparr>\<rparr>"
        fp
        "[\<lparr>latitude = 1, longitude = 1\<rparr>]" "[]"
        0 "\<lparr>point_count = 0, feature_count = 0, distance = 0, elapsed_time = 0\<rparr>"]
    by (simp add: GetFeature_def RecordRoute_feature_count)
  then show ?thesis by blast
qed

end
